theory Spec2Isabelle
  imports Complex_Main
begin

section \<open>Python values\<close>

text \<open>
  The script \<^verbatim>\<open>.github/scripts/review_with_glm.py\<close> works on what
  \<^verbatim>\<open>response.json()\<close> returns: \<^verbatim>\<open>None\<close>, a bool, an int, a float, a str,
  a list or a dict with str keys. A str is held as the bytes of its UTF-8 encoding, so
  that concatenation and emptiness are those of the Python str. A float is held by its
  value. A dict is an association list in insertion order with distinct keys; a key is
  looked up with \<open>map_of\<close>.
\<close>

datatype json =
    JNull
  | JBool bool
  | JInt int
  | JFloat rat
  | JStr string
  | JList "json list"
  | JDict "(string \<times> json) list"

datatype py_error =
    KeyError
  | IndexError
  | TypeError
  | AttributeError
  | JSONDecodeError
  | RequestException

text \<open>Sequencing of two steps of which the first may raise.\<close>

fun and_then :: "py_error + 'a \<Rightarrow> ('a \<Rightarrow> py_error + 'b) \<Rightarrow> py_error + 'b" where
  "and_then (Inl e) f = Inl e"
| "and_then (Inr x) f = f x"

text \<open>The truth value of \<^verbatim>\<open>if v:\<close>.\<close>

fun truthy :: "json \<Rightarrow> bool" where
  "truthy JNull = False"
| "truthy (JBool b) = b"
| "truthy (JInt i) = (i \<noteq> 0)"
| "truthy (JFloat q) = (q \<noteq> 0)"
| "truthy (JStr s) = (s \<noteq> [])"
| "truthy (JList xs) = (xs \<noteq> [])"
| "truthy (JDict kvs) = (kvs \<noteq> [])"

text \<open>\<^verbatim>\<open>v.get(k)\<close>: only a dict has the method; a missing key gives \<^verbatim>\<open>None\<close>.\<close>

fun dict_get :: "json \<Rightarrow> string \<Rightarrow> py_error + json" where
  "dict_get (JDict kvs) k = (case map_of kvs k of None \<Rightarrow> Inr JNull | Some v \<Rightarrow> Inr v)"
| "dict_get _ k = Inl AttributeError"

text \<open>
  \<^verbatim>\<open>v[k]\<close> with \<open>k\<close> a str: a dict raises KeyError on a missing key; every
  other value raises TypeError (a list and a str want an int index, the rest are not
  subscriptable).
\<close>

fun getitem_str :: "json \<Rightarrow> string \<Rightarrow> py_error + json" where
  "getitem_str (JDict kvs) k = (case map_of kvs k of None \<Rightarrow> Inl KeyError | Some v \<Rightarrow> Inr v)"
| "getitem_str _ k = Inl TypeError"

text \<open>
  \<^verbatim>\<open>v[0]\<close>: the first element of a list or the first character of a str
  (IndexError when empty); a dict from JSON has str keys only, so the key \<open>0\<close> is
  missing; the rest are not subscriptable.
\<close>

fun getitem_0 :: "json \<Rightarrow> py_error + json" where
  "getitem_0 (JList xs) = (case xs of [] \<Rightarrow> Inl IndexError | x # _ \<Rightarrow> Inr x)"
| "getitem_0 (JStr s) = (case s of [] \<Rightarrow> Inl IndexError | c # _ \<Rightarrow> Inr (JStr [c]))"
| "getitem_0 (JDict kvs) = Inl KeyError"
| "getitem_0 _ = Inl TypeError"

text \<open>
  The elements \<^verbatim>\<open>for file in v\<close> runs over: those of a list, the keys of a dict,
  the characters of a str (each a str again; one per byte here, one per code point in
  Python, which makes no difference to what the script does with them); the other values
  are not iterable.
\<close>

fun py_iter :: "json \<Rightarrow> py_error + json list" where
  "py_iter (JList xs) = Inr xs"
| "py_iter (JDict kvs) = Inr (map (\<lambda>kv. JStr (fst kv)) kvs)"
| "py_iter (JStr s) = Inr (map (\<lambda>c. JStr [c]) s)"
| "py_iter _ = Inl TypeError"

text \<open>
  A replacement field \<^verbatim>\<open>{v}\<close> of an f-string: a str stands for itself, any other
  value is rendered by Python's \<^verbatim>\<open>str\<close>, which is the parameter \<open>str_of\<close>
  (a function of the runtime, taken to return a str on every value).
\<close>

fun format_value :: "(json \<Rightarrow> string) \<Rightarrow> json \<Rightarrow> string" where
  "format_value str_of (JStr s) = s"
| "format_value str_of v = str_of v"

section \<open>Configuration and the network\<close>

text \<open>
  The four module-level values read with \<^verbatim>\<open>os.environ.get\<close>: \<open>None\<close> when the
  variable is unset, and then an f-string renders it as \<^verbatim>\<open>None\<close>.
\<close>

record config =
  ZHIPU_API_KEY :: "string option"
  GH_PAT :: "string option"
  PR_NUMBER :: "string option"
  REPO :: "string option"

fun env_str :: "string option \<Rightarrow> string" where
  "env_str None = ''None''"
| "env_str (Some s) = s"

datatype http_method = GET | POST

record http_request =
  meth :: http_method
  url :: string
  headers :: "(string \<times> string) list"
  json_payload :: "json option"

text \<open>
  What a call of \<^verbatim>\<open>requests.get\<close> or \<^verbatim>\<open>requests.post\<close> comes back with:
  the call raises, or it returns a response with a status code and a body, where the body
  is \<open>None\<close> when \<^verbatim>\<open>response.json()\<close> would raise on it.
\<close>

datatype http_reply = Raised | Reply nat "json option"

text \<open>What a run does that can be seen from outside, in order.\<close>

datatype event = Print string | Http http_request

type_synonym 'a run = "event list \<times> (py_error + 'a)"

section \<open>The three functions and the main block\<close>

text \<open>
  Each function returns the requests it made together with its result or the fault it
  raised. The network is a function from the request to what the call comes back with.
\<close>

text \<open>The request of \<^verbatim>\<open>get_pr_diff\<close>: its address and its two headers.\<close>

definition files_request :: "config \<Rightarrow> http_request" where
  "files_request cfg =
     \<lparr>meth = GET,
      url = ''https://api.github.com/repos/'' @ env_str (REPO cfg) @ ''/pulls/'' @
            env_str (PR_NUMBER cfg) @ ''/files'',
      headers = [(''Authorization'', ''token '' @ env_str (GH_PAT cfg)),
                 (''Accept'', ''application/vnd.github.v3+json'')],
      json_payload = None\<rparr>"

text \<open>One file section of the diff: \<^verbatim>\<open>f"File: {filename}\n{patch}\n\n"\<close>.\<close>

definition file_section :: "(json \<Rightarrow> string) \<Rightarrow> json \<Rightarrow> json \<Rightarrow> string" where
  "file_section str_of filename patch =
     ''File: '' @ format_value str_of filename @ [CHR 0x0A] @
     format_value str_of patch @ [CHR 0x0A, CHR 0x0A]"

text \<open>The loop of \<^verbatim>\<open>get_pr_diff\<close>, with \<open>diff_content\<close> as the accumulator.\<close>

fun diff_loop :: "(json \<Rightarrow> string) \<Rightarrow> string \<Rightarrow> json list \<Rightarrow> py_error + string" where
  "diff_loop str_of diff_content [] = Inr diff_content"
| "diff_loop str_of diff_content (file # rest) =
     (case dict_get file ''patch'' of
        Inl e \<Rightarrow> Inl e
      | Inr p \<Rightarrow>
          if truthy p then
            (case getitem_str file ''filename'' of
               Inl e \<Rightarrow> Inl e
             | Inr filename \<Rightarrow>
                 (case getitem_str file ''patch'' of
                    Inl e \<Rightarrow> Inl e
                  | Inr patch \<Rightarrow>
                      diff_loop str_of (diff_content @ file_section str_of filename patch) rest))
          else diff_loop str_of diff_content rest)"

text \<open>
  \<^verbatim>\<open>get_pr_diff\<close>: one GET, the response read as JSON, then the loop over it from
  the empty string.
\<close>

definition get_pr_diff ::
  "(json \<Rightarrow> string) \<Rightarrow> config \<Rightarrow> (http_request \<Rightarrow> http_reply) \<Rightarrow> string run" where
  "get_pr_diff str_of cfg net =
     ([Http (files_request cfg)],
      case net (files_request cfg) of
        Raised \<Rightarrow> Inl RequestException
      | Reply status body \<Rightarrow>
          (case body of
             None \<Rightarrow> Inl JSONDecodeError
           | Some files \<Rightarrow> and_then (py_iter files) (diff_loop str_of [])))"

text \<open>
  The fixed instruction in Thai that precedes the diff in the chat message, byte by byte;
  it ends in a colon and two newlines.
\<close>

definition review_instruction :: string where
  "review_instruction =
     [CHR 0xE0, CHR 0xB8, CHR 0x84, CHR 0xE0, CHR 0xB8, CHR 0xB8, CHR 0xE0, CHR 0xB8,
      CHR 0x93, CHR 0xE0, CHR 0xB9, CHR 0x80, CHR 0xE0, CHR 0xB8, CHR 0x9B, CHR 0xE0,
      CHR 0xB9, CHR 0x87, CHR 0xE0, CHR 0xB8, CHR 0x99] @
     '' Code Reviewer '' @
     [CHR 0xE0, CHR 0xB8, CHR 0x97, CHR 0xE0, CHR 0xB8, CHR 0xB5, CHR 0xE0, CHR 0xB9,
      CHR 0x88, CHR 0xE0, CHR 0xB9, CHR 0x80, CHR 0xE0, CHR 0xB8, CHR 0x81, CHR 0xE0,
      CHR 0xB9, CHR 0x88, CHR 0xE0, CHR 0xB8, CHR 0x87, CHR 0xE0, CHR 0xB8, CHR 0x97,
      CHR 0xE0, CHR 0xB8, CHR 0xB5, CHR 0xE0, CHR 0xB9, CHR 0x88, CHR 0xE0, CHR 0xB8,
      CHR 0xAA, CHR 0xE0, CHR 0xB8, CHR 0xB8, CHR 0xE0, CHR 0xB8, CHR 0x94] @
     '' '' @
     [CHR 0xE0, CHR 0xB8, CHR 0x81, CHR 0xE0, CHR 0xB8, CHR 0xA3, CHR 0xE0, CHR 0xB8,
      CHR 0xB8, CHR 0xE0, CHR 0xB8, CHR 0x93, CHR 0xE0, CHR 0xB8, CHR 0xB2, CHR 0xE0,
      CHR 0xB8, CHR 0x95, CHR 0xE0, CHR 0xB8, CHR 0xA3, CHR 0xE0, CHR 0xB8, CHR 0xA7,
      CHR 0xE0, CHR 0xB8, CHR 0x88, CHR 0xE0, CHR 0xB8, CHR 0xAA, CHR 0xE0, CHR 0xB8,
      CHR 0xAD, CHR 0xE0, CHR 0xB8, CHR 0x9A, CHR 0xE0, CHR 0xB9, CHR 0x82, CHR 0xE0,
      CHR 0xB8, CHR 0x84, CHR 0xE0, CHR 0xB9, CHR 0x89, CHR 0xE0, CHR 0xB8, CHR 0x94,
      CHR 0xE0, CHR 0xB8, CHR 0x94, CHR 0xE0, CHR 0xB9, CHR 0x89, CHR 0xE0, CHR 0xB8,
      CHR 0xB2, CHR 0xE0, CHR 0xB8, CHR 0x99, CHR 0xE0, CHR 0xB8, CHR 0xA5, CHR 0xE0,
      CHR 0xB9, CHR 0x88, CHR 0xE0, CHR 0xB8, CHR 0xB2, CHR 0xE0, CHR 0xB8, CHR 0x87,
      CHR 0xE0, CHR 0xB8, CHR 0x99, CHR 0xE0, CHR 0xB8, CHR 0xB5, CHR 0xE0, CHR 0xB9,
      CHR 0x89] @
     '' (Diff) '' @
     [CHR 0xE0, CHR 0xB9, CHR 0x81, CHR 0xE0, CHR 0xB8, CHR 0xA5, CHR 0xE0, CHR 0xB8,
      CHR 0xB0, CHR 0xE0, CHR 0xB9, CHR 0x81, CHR 0xE0, CHR 0xB8, CHR 0x99, CHR 0xE0,
      CHR 0xB8, CHR 0xB0, CHR 0xE0, CHR 0xB8, CHR 0x99, CHR 0xE0, CHR 0xB8, CHR 0xB3,
      CHR 0xE0, CHR 0xB8, CHR 0x81, CHR 0xE0, CHR 0xB8, CHR 0xB2, CHR 0xE0, CHR 0xB8,
      CHR 0xA3, CHR 0xE0, CHR 0xB8, CHR 0x9B, CHR 0xE0, CHR 0xB8, CHR 0xA3, CHR 0xE0,
      CHR 0xB8, CHR 0xB1, CHR 0xE0, CHR 0xB8, CHR 0x9A, CHR 0xE0, CHR 0xB8, CHR 0x9B,
      CHR 0xE0, CHR 0xB8, CHR 0xA3, CHR 0xE0, CHR 0xB8, CHR 0xB8, CHR 0xE0, CHR 0xB8,
      CHR 0x87] @
     '' '' @
     [CHR 0xE0, CHR 0xB8, CHR 0x9E, CHR 0xE0, CHR 0xB8, CHR 0xA3, CHR 0xE0, CHR 0xB9,
      CHR 0x89, CHR 0xE0, CHR 0xB8, CHR 0xAD, CHR 0xE0, CHR 0xB8, CHR 0xA1, CHR 0xE0,
      CHR 0xB8, CHR 0x97, CHR 0xE0, CHR 0xB8, CHR 0xB1, CHR 0xE0, CHR 0xB9, CHR 0x89,
      CHR 0xE0, CHR 0xB8, CHR 0x87, CHR 0xE0, CHR 0xB8, CHR 0x8A, CHR 0xE0, CHR 0xB8,
      CHR 0xB5, CHR 0xE0, CHR 0xB9, CHR 0x89, CHR 0xE0, CHR 0xB8, CHR 0x8A, CHR 0xE0,
      CHR 0xB9, CHR 0x88, CHR 0xE0, CHR 0xB8, CHR 0xAD, CHR 0xE0, CHR 0xB8, CHR 0x87,
      CHR 0xE0, CHR 0xB9, CHR 0x82, CHR 0xE0, CHR 0xB8, CHR 0xAB, CHR 0xE0, CHR 0xB8,
      CHR 0xA7, CHR 0xE0, CHR 0xB9, CHR 0x88, CHR 0xE0, CHR 0xB8, CHR 0x84, CHR 0xE0,
      CHR 0xB8, CHR 0xA7, CHR 0xE0, CHR 0xB8, CHR 0xB2, CHR 0xE0, CHR 0xB8, CHR 0xA1,
      CHR 0xE0, CHR 0xB8, CHR 0x9B, CHR 0xE0, CHR 0xB8, CHR 0xA5, CHR 0xE0, CHR 0xB8,
      CHR 0xAD, CHR 0xE0, CHR 0xB8, CHR 0x94, CHR 0xE0, CHR 0xB8, CHR 0xA0, CHR 0xE0,
      CHR 0xB8, CHR 0xB1, CHR 0xE0, CHR 0xB8, CHR 0xA2, CHR 0xE0, CHR 0xB8, CHR 0xAB,
      CHR 0xE0, CHR 0xB8, CHR 0xB2, CHR 0xE0, CHR 0xB8, CHR 0x81, CHR 0xE0, CHR 0xB8,
      CHR 0xA1, CHR 0xE0, CHR 0xB8, CHR 0xB5] @
     '' '' @
     [CHR 0xE0, CHR 0xB8, CHR 0x95, CHR 0xE0, CHR 0xB8, CHR 0xAD, CHR 0xE0, CHR 0xB8,
      CHR 0x9A, CHR 0xE0, CHR 0xB9, CHR 0x80, CHR 0xE0, CHR 0xB8, CHR 0x9B, CHR 0xE0,
      CHR 0xB9, CHR 0x87, CHR 0xE0, CHR 0xB8, CHR 0x99, CHR 0xE0, CHR 0xB8, CHR 0xA0,
      CHR 0xE0, CHR 0xB8, CHR 0xB2, CHR 0xE0, CHR 0xB8, CHR 0xA9, CHR 0xE0, CHR 0xB8,
      CHR 0xB2, CHR 0xE0, CHR 0xB9, CHR 0x84, CHR 0xE0, CHR 0xB8, CHR 0x97, CHR 0xE0,
      CHR 0xB8, CHR 0xA2] @
     '':'' @
     [CHR 0x0A, CHR 0x0A]"

text \<open>The request of \<^verbatim>\<open>ask_glm\<close>: address, headers and the payload with the one message.\<close>

definition glm_request :: "config \<Rightarrow> string \<Rightarrow> http_request" where
  "glm_request cfg diff_text =
     \<lparr>meth = POST,
      url = ''https://api.z.ai/api/coding/paas/v4/chat/completions'',
      headers = [(''Authorization'', ''Bearer '' @ env_str (ZHIPU_API_KEY cfg)),
                 (''Content-Type'', ''application/json'')],
      json_payload = Some (JDict
        [(''model'', JStr ''glm-4.7''),
         (''messages'', JList
            [JDict [(''role'', JStr ''user''),
                    (''content'', JStr (review_instruction @ diff_text))]])])\<rparr>"

text \<open>
  \<^verbatim>\<open>ask_glm\<close>: one POST, the response read as JSON, then
  \<^verbatim>\<open>['choices'][0]['message']['content']\<close>, each subscript of which may raise.
\<close>

definition ask_glm ::
  "config \<Rightarrow> (http_request \<Rightarrow> http_reply) \<Rightarrow> string \<Rightarrow> json run" where
  "ask_glm cfg net diff_text =
     ([Http (glm_request cfg diff_text)],
      case net (glm_request cfg diff_text) of
        Raised \<Rightarrow> Inl RequestException
      | Reply status body \<Rightarrow>
          (case body of
             None \<Rightarrow> Inl JSONDecodeError
           | Some j \<Rightarrow>
               and_then (and_then (and_then (getitem_str j ''choices'') getitem_0)
                 (\<lambda>choice. getitem_str choice ''message''))
                 (\<lambda>message. getitem_str message ''content'')))"

text \<open>
  The title of the comment: two hashes, a space, the robot face U+1F916 (four bytes in
  UTF-8), then \<^verbatim>\<open> GLM Code Review Bot\<close> and two newlines.
\<close>

definition comment_title :: string where
  "comment_title =
     ''## '' @ [CHR 0xF0, CHR 0x9F, CHR 0xA4, CHR 0x96] @ '' GLM Code Review Bot'' @
     [CHR 0x0A, CHR 0x0A]"

text \<open>The request of \<^verbatim>\<open>post_comment_to_pr\<close>, with the message formatted into the body.\<close>

definition comment_request :: "(json \<Rightarrow> string) \<Rightarrow> config \<Rightarrow> json \<Rightarrow> http_request" where
  "comment_request str_of cfg message =
     \<lparr>meth = POST,
      url = ''https://api.github.com/repos/'' @ env_str (REPO cfg) @ ''/issues/'' @
            env_str (PR_NUMBER cfg) @ ''/comments'',
      headers = [(''Authorization'', ''token '' @ env_str (GH_PAT cfg)),
                 (''Accept'', ''application/vnd.github.v3+json'')],
      json_payload = Some (JDict
        [(''body'', JStr (comment_title @ format_value str_of message))])\<rparr>"

text \<open>
  \<^verbatim>\<open>post_comment_to_pr\<close>: one POST; the response is not bound to a name and the
  function falls off its end.
\<close>

definition post_comment_to_pr ::
  "(json \<Rightarrow> string) \<Rightarrow> config \<Rightarrow> (http_request \<Rightarrow> http_reply) \<Rightarrow> json \<Rightarrow> unit run" where
  "post_comment_to_pr str_of cfg net message =
     ([Http (comment_request str_of cfg message)],
      case net (comment_request str_of cfg message) of
        Raised \<Rightarrow> Inl RequestException
      | Reply status body \<Rightarrow> Inr ())"

text \<open>
  The block under \<^verbatim>\<open>if __name__ == "__main__":\<close>. No fault is caught, so the first
  one ends the run, after what was printed and requested before it.
\<close>

definition main ::
  "(json \<Rightarrow> string) \<Rightarrow> config \<Rightarrow> (http_request \<Rightarrow> http_reply) \<Rightarrow> unit run" where
  "main str_of cfg net =
     (case get_pr_diff str_of cfg net of
        (ev1, Inl e) \<Rightarrow> (Print ''Fetching PR diff...'' # ev1, Inl e)
      | (ev1, Inr diff) \<Rightarrow>
          if diff = [] then
            (Print ''Fetching PR diff...'' # ev1 @
             [Print ''No diff found or diff is too large.''], Inr ())
          else
            (case ask_glm cfg net diff of
               (ev2, Inl e) \<Rightarrow>
                 (Print ''Fetching PR diff...'' # ev1 @ Print ''Sending to GLM...'' # ev2, Inl e)
             | (ev2, Inr review_result) \<Rightarrow>
                 (case post_comment_to_pr str_of cfg net review_result of
                    (ev3, Inl e) \<Rightarrow>
                      (Print ''Fetching PR diff...'' # ev1 @ Print ''Sending to GLM...'' # ev2 @
                       Print ''Posting comment to GitHub...'' # ev3, Inl e)
                  | (ev3, Inr u) \<Rightarrow>
                      (Print ''Fetching PR diff...'' # ev1 @ Print ''Sending to GLM...'' # ev2 @
                       Print ''Posting comment to GitHub...'' # ev3 @ [Print ''Done!''],
                       Inr ()))))"

section \<open>What is observed of a run\<close>

text \<open>The lines written to the console, in order.\<close>

fun console :: "event list \<Rightarrow> string list" where
  "console [] = []"
| "console (Print s # evs) = s # console evs"
| "console (Http r # evs) = console evs"

text \<open>The POST requests of a run that went to the address \<open>u\<close>, in order.\<close>

fun posts_to :: "string \<Rightarrow> event list \<Rightarrow> http_request list" where
  "posts_to u [] = []"
| "posts_to u (Print s # evs) = posts_to u evs"
| "posts_to u (Http r # evs) =
     (if meth r = POST \<and> url r = u then r # posts_to u evs else posts_to u evs)"

text \<open>The calls to the chat-completion endpoint and to the comment endpoint of the pull request.\<close>

definition llm_calls :: "event list \<Rightarrow> http_request list" where
  "llm_calls evs = posts_to ''https://api.z.ai/api/coding/paas/v4/chat/completions'' evs"

definition comment_calls :: "config \<Rightarrow> event list \<Rightarrow> http_request list" where
  "comment_calls cfg evs =
     posts_to (''https://api.github.com/repos/'' @ env_str (REPO cfg) @ ''/issues/'' @
               env_str (PR_NUMBER cfg) @ ''/comments'') evs"

text \<open>
  The \<^verbatim>\<open>body\<close> values of the JSON objects that the requests of a run carried, in
  order.
\<close>

fun submitted_bodies :: "event list \<Rightarrow> json list" where
  "submitted_bodies [] = []"
| "submitted_bodies (Print s # evs) = submitted_bodies evs"
| "submitted_bodies (Http r # evs) =
     (case json_payload r of
        Some (JDict kvs) \<Rightarrow>
          (case map_of kvs ''body'' of
             Some b \<Rightarrow> b # submitted_bodies evs
           | None \<Rightarrow> submitted_bodies evs)
      | _ \<Rightarrow> submitted_bodies evs)"

section \<open>Notions of the specification\<close>

text \<open>
  A response body has the path \<^verbatim>\<open>choices[0].message.content\<close> when it is an object
  whose \<^verbatim>\<open>choices\<close> is an array with a first element, that element is an object whose
  \<^verbatim>\<open>message\<close> is an object, and that object has a \<^verbatim>\<open>content\<close> key.
\<close>

definition has_content_path :: "json \<Rightarrow> bool" where
  "has_content_path body =
     (case body of
        JDict kvs \<Rightarrow>
          (case map_of kvs ''choices'' of
             Some (JList (JDict choice # others)) \<Rightarrow>
               (case map_of choice ''message'' of
                  Some (JDict message) \<Rightarrow> map_of message ''content'' \<noteq> None
                | _ \<Rightarrow> False)
           | _ \<Rightarrow> False)
      | _ \<Rightarrow> False)"

text \<open>A file record qualifies for the diff when its patch is present and not empty.\<close>

definition qualifies :: "json \<Rightarrow> bool" where
  "qualifies file = (case dict_get file ''patch'' of Inl e \<Rightarrow> False | Inr p \<Rightarrow> truthy p)"

text \<open>
  A file record can be processed when it is an object and, if it qualifies, carries a
  filename.
\<close>

definition processable :: "json \<Rightarrow> bool" where
  "processable file =
     (case file of
        JDict kvs \<Rightarrow> \<not> qualifies file \<or> map_of kvs ''filename'' \<noteq> None
      | _ \<Rightarrow> False)"

text \<open>The section of one file record: its filename line, its patch and a blank line.\<close>

definition entry_section :: "(json \<Rightarrow> string) \<Rightarrow> json \<Rightarrow> string" where
  "entry_section str_of file =
     (case file of
        JDict kvs \<Rightarrow>
          (case map_of kvs ''filename'' of
             None \<Rightarrow> []
           | Some filename \<Rightarrow>
               (case map_of kvs ''patch'' of
                  None \<Rightarrow> []
                | Some patch \<Rightarrow> file_section str_of filename patch))
      | _ \<Rightarrow> [])"

section \<open>Example inputs\<close>

text \<open>
  A configuration, a file list of two files of which one has a patch, a well-formed
  chat-completion response, and a network that answers the file-list request with
  \<open>files_body\<close>, the chat-completion request with \<open>llm_body\<close> and the comment request
  with the status \<open>comment_status\<close>. Every value formatted in the example runs is a
  str, so the rendering of other values is a fixed text there.
\<close>

definition example_config :: config where
  "example_config =
     \<lparr>ZHIPU_API_KEY = Some ''zhipu-key'', GH_PAT = Some ''gh-token'',
      PR_NUMBER = Some ''42'', REPO = Some ''org/repo''\<rparr>"

definition opaque_str :: "json \<Rightarrow> string" where
  "opaque_str v = ''<value>''"

definition example_files :: json where
  "example_files =
     JList [JDict [(''filename'', JStr ''a.py''),
                   (''patch'', JStr ''@@ -1 +1 @@\<newline>-x\<newline>+y\<newline>'')],
            JDict [(''filename'', JStr ''logo.png'')]]"

definition example_review :: json where
  "example_review =
     JDict [(''choices'', JList [JDict [(''message'',
       JDict [(''role'', JStr ''assistant''), (''content'', JStr ''LGTM'')])]])]"

definition example_net :: "json \<Rightarrow> json \<Rightarrow> nat \<Rightarrow> http_request \<Rightarrow> http_reply" where
  "example_net files_body llm_body comment_status r =
     (if meth r = GET then Reply 200 (Some files_body)
      else if url r = ''https://api.z.ai/api/coding/paas/v4/chat/completions''
        then Reply 200 (Some llm_body)
      else Reply comment_status None)"

section \<open>Basic facts\<close>

lemma llm_calls_simps:
  "llm_calls [] = []"
  "llm_calls (Print s # evs) = llm_calls evs"
  "llm_calls (Http (files_request cfg) # evs) = llm_calls evs"
  "llm_calls (Http (glm_request cfg d) # evs) = glm_request cfg d # llm_calls evs"
  "llm_calls (Http (comment_request f cfg m) # evs) = llm_calls evs"
  by (simp_all add: llm_calls_def files_request_def glm_request_def comment_request_def)

lemma comment_calls_simps:
  "comment_calls cfg [] = []"
  "comment_calls cfg (Print s # evs) = comment_calls cfg evs"
  "comment_calls cfg (Http (files_request cfg') # evs) = comment_calls cfg evs"
  "comment_calls cfg (Http (glm_request cfg' d) # evs) = comment_calls cfg evs"
  "comment_calls cfg (Http (comment_request f cfg m) # evs) =
     comment_request f cfg m # comment_calls cfg evs"
  by (simp_all add: comment_calls_def files_request_def glm_request_def comment_request_def)

lemma example_net_simps:
  "example_net fb lb cs (files_request cfg) = Reply 200 (Some fb)"
  "example_net fb lb cs (glm_request cfg d) = Reply 200 (Some lb)"
  "example_net fb lb cs (comment_request f cfg m) = Reply cs None"
  by (simp_all add: example_net_def files_request_def glm_request_def comment_request_def)

text \<open>Each of the three functions makes exactly its one request.\<close>

lemma fst_get_pr_diff: "fst (get_pr_diff f cfg net) = [Http (files_request cfg)]"
  by (simp add: get_pr_diff_def)

lemma fst_ask_glm: "fst (ask_glm cfg net d) = [Http (glm_request cfg d)]"
  by (simp add: ask_glm_def)

lemma fst_post_comment_to_pr:
  "fst (post_comment_to_pr f cfg net m) = [Http (comment_request f cfg m)]"
  by (simp add: post_comment_to_pr_def)

text \<open>The five ways a run of the main block can go.\<close>

lemma main_fetch_fault:
  "snd (get_pr_diff f cfg net) = Inl e \<Longrightarrow>
   main f cfg net = ([Print ''Fetching PR diff...'', Http (files_request cfg)], Inl e)"
  using fst_get_pr_diff [of f cfg net]
  by (cases "get_pr_diff f cfg net") (simp add: main_def)

lemma main_no_diff:
  "snd (get_pr_diff f cfg net) = Inr [] \<Longrightarrow>
   main f cfg net =
     ([Print ''Fetching PR diff...'', Http (files_request cfg),
       Print ''No diff found or diff is too large.''], Inr ())"
  using fst_get_pr_diff [of f cfg net]
  by (cases "get_pr_diff f cfg net") (simp add: main_def)

lemma main_review_fault:
  "snd (get_pr_diff f cfg net) = Inr d \<Longrightarrow> d \<noteq> [] \<Longrightarrow> snd (ask_glm cfg net d) = Inl e \<Longrightarrow>
   main f cfg net =
     ([Print ''Fetching PR diff...'', Http (files_request cfg),
       Print ''Sending to GLM...'', Http (glm_request cfg d)], Inl e)"
  using fst_get_pr_diff [of f cfg net] fst_ask_glm [of cfg net d]
  by (cases "get_pr_diff f cfg net"; cases "ask_glm cfg net d") (simp add: main_def)

lemma main_post_fault:
  "snd (get_pr_diff f cfg net) = Inr d \<Longrightarrow> d \<noteq> [] \<Longrightarrow> snd (ask_glm cfg net d) = Inr m \<Longrightarrow>
   snd (post_comment_to_pr f cfg net m) = Inl e \<Longrightarrow>
   main f cfg net =
     ([Print ''Fetching PR diff...'', Http (files_request cfg),
       Print ''Sending to GLM...'', Http (glm_request cfg d),
       Print ''Posting comment to GitHub...'', Http (comment_request f cfg m)], Inl e)"
  using fst_get_pr_diff [of f cfg net] fst_ask_glm [of cfg net d]
    fst_post_comment_to_pr [of f cfg net m]
  by (cases "get_pr_diff f cfg net"; cases "ask_glm cfg net d";
      cases "post_comment_to_pr f cfg net m") (simp add: main_def)

lemma main_done:
  "snd (get_pr_diff f cfg net) = Inr d \<Longrightarrow> d \<noteq> [] \<Longrightarrow> snd (ask_glm cfg net d) = Inr m \<Longrightarrow>
   snd (post_comment_to_pr f cfg net m) = Inr u \<Longrightarrow>
   main f cfg net =
     ([Print ''Fetching PR diff...'', Http (files_request cfg),
       Print ''Sending to GLM...'', Http (glm_request cfg d),
       Print ''Posting comment to GitHub...'', Http (comment_request f cfg m),
       Print ''Done!''], Inr ())"
  using fst_get_pr_diff [of f cfg net] fst_ask_glm [of cfg net d]
    fst_post_comment_to_pr [of f cfg net m]
  by (cases "get_pr_diff f cfg net"; cases "ask_glm cfg net d";
      cases "post_comment_to_pr f cfg net m") (simp add: main_def)

text \<open>The loop over a list in two parts is the loop over the first part, then over the second.\<close>

lemma diff_loop_append:
  "diff_loop f acc (xs @ ys) = and_then (diff_loop f acc xs) (\<lambda>a. diff_loop f a ys)"
  by (induction xs arbitrary: acc) (auto split: sum.splits option.splits json.splits)

text \<open>
  The loop returns exactly when every record can be processed, and then it has appended
  the sections of the qualifying records in the order of the list.
\<close>

lemma diff_loop_char:
  "diff_loop f acc files = Inr d \<longleftrightarrow>
   list_all processable files \<and>
   d = acc @ concat (map (entry_section f) (filter qualifies files))"
proof (induction files arbitrary: acc)
  case Nil
  show ?case by auto
next
  case (Cons entry rest)
  show ?case
  proof (cases entry)
    case (JDict kvs)
    then show ?thesis using Cons.IH
      by (auto simp: qualifies_def processable_def entry_section_def split: option.splits)
  qed (simp_all add: processable_def)
qed

text \<open>A bundle built from the empty string is built from any start by putting the start in front.\<close>

lemma diff_loop_shift:
  "diff_loop f [] files = Inr d \<Longrightarrow> diff_loop f acc files = Inr (acc @ d)"
  by (simp add: diff_loop_char)

text \<open>The extraction in \<^verbatim>\<open>ask_glm\<close> returns exactly on the bodies that have the path.\<close>

lemma content_path_iff:
  "(\<exists>c. and_then (and_then (and_then (getitem_str j ''choices'') getitem_0)
           (\<lambda>choice. getitem_str choice ''message''))
           (\<lambda>message. getitem_str message ''content'') = Inr c) \<longleftrightarrow> has_content_path j"
proof (cases j)
  case (JDict kvs)
  show ?thesis
  proof (cases "map_of kvs ''choices''")
    case None
    with JDict show ?thesis by (simp add: has_content_path_def)
  next
    case (Some ch)
    show ?thesis
    proof (cases ch)
      case (JList xs)
      show ?thesis
      proof (cases xs)
        case Nil
        with JDict Some JList show ?thesis by (simp add: has_content_path_def)
      next
        case (Cons x rest)
        show ?thesis
        proof (cases x)
          case choice: (JDict m)
          show ?thesis
          proof (cases "map_of m ''message''")
            case None
            with JDict Some JList Cons choice show ?thesis
              by (simp add: has_content_path_def)
          next
            case msg: (Some message)
            with JDict Some JList Cons choice show ?thesis
              by (cases message) (simp_all add: has_content_path_def split: option.splits)
          qed
        qed (use JDict Some JList Cons in \<open>simp_all add: has_content_path_def\<close>)
      qed
    next
      case (JStr s)
      with JDict Some show ?thesis
        by (cases s) (simp_all add: has_content_path_def)
    qed (use JDict Some in \<open>simp_all add: has_content_path_def\<close>)
  qed
qed (simp_all add: has_content_path_def)

text \<open>The example file list gives a non-empty diff, and the example response a review.\<close>

lemma example_diff:
  "snd (get_pr_diff opaque_str example_config (example_net example_files lb cs)) =
     Inr ''File: a.py\<newline>@@ -1 +1 @@\<newline>-x\<newline>+y\<newline>\<newline>\<newline>''"
  by (simp add: get_pr_diff_def example_net_simps example_files_def file_section_def)

lemma example_no_diff:
  "snd (get_pr_diff opaque_str example_config
          (example_net (JList [JDict [(''filename'', JStr ''logo.png'')]]) lb cs)) = Inr []"
  by (simp add: get_pr_diff_def example_net_simps)

lemma example_ask_glm:
  "snd (ask_glm cfg (example_net fb example_review cs) d) = Inr (JStr ''LGTM'')"
  by (simp add: ask_glm_def example_net_simps example_review_def)

lemma example_post:
  "snd (post_comment_to_pr f cfg (example_net fb lb cs) m) = Inr ()"
  by (simp add: post_comment_to_pr_def example_net_simps)

section \<open>The main block: which calls are made\<close>

text \<open>
  C1, as amended. When \<^verbatim>\<open>get_pr_diff\<close> returns the empty string, the run is the
  fetch, then the "no diff" message: no request goes to the chat-completion endpoint and
  none to the comment endpoint. When it returns a non-empty string \<open>d\<close>, exactly one
  request goes to the chat-completion endpoint, carrying \<open>d\<close>; and if \<^verbatim>\<open>ask_glm\<close>
  returns a review \<open>m\<close>, the run goes on with the comment request for \<open>m\<close>, after
  the chat-completion request, and that is the only request to the comment endpoint.
\<close>

theorem main_calls_follow_diff:
  assumes "snd (get_pr_diff str_of cfg net) = Inr d"
  shows "(d = [] \<longrightarrow>
            fst (main str_of cfg net) =
              [Print ''Fetching PR diff...'', Http (files_request cfg),
               Print ''No diff found or diff is too large.''] \<and>
            llm_calls (fst (main str_of cfg net)) = [] \<and>
            comment_calls cfg (fst (main str_of cfg net)) = []) \<and>
         (d \<noteq> [] \<longrightarrow>
            llm_calls (fst (main str_of cfg net)) = [glm_request cfg d] \<and>
            (\<forall>m. snd (ask_glm cfg net d) = Inr m \<longrightarrow>
               take 6 (fst (main str_of cfg net)) =
                 [Print ''Fetching PR diff...'', Http (files_request cfg),
                  Print ''Sending to GLM...'', Http (glm_request cfg d),
                  Print ''Posting comment to GitHub...'', Http (comment_request str_of cfg m)] \<and>
               comment_calls cfg (fst (main str_of cfg net)) = [comment_request str_of cfg m]))"
proof (intro conjI impI allI)
  assume e: "d = []"
  then have m: "main str_of cfg net =
     ([Print ''Fetching PR diff...'', Http (files_request cfg),
       Print ''No diff found or diff is too large.''], Inr ())"
    using assms by (simp add: main_no_diff)
  show "fst (main str_of cfg net) =
          [Print ''Fetching PR diff...'', Http (files_request cfg),
           Print ''No diff found or diff is too large.'']"
    by (simp add: m)
  show "llm_calls (fst (main str_of cfg net)) = []"
    by (simp add: m llm_calls_simps)
  show "comment_calls cfg (fst (main str_of cfg net)) = []"
    by (simp add: m comment_calls_simps)
next
  assume ne: "d \<noteq> []"
  show "llm_calls (fst (main str_of cfg net)) = [glm_request cfg d]"
  proof (cases "snd (ask_glm cfg net d)")
    case (Inl e)
    show ?thesis by (simp add: main_review_fault [OF assms ne Inl] llm_calls_simps)
  next
    case review: (Inr m)
    show ?thesis
    proof (cases "snd (post_comment_to_pr str_of cfg net m)")
      case (Inl e)
      show ?thesis by (simp add: main_post_fault [OF assms ne review Inl] llm_calls_simps)
    next
      case (Inr u)
      show ?thesis by (simp add: main_done [OF assms ne review Inr] llm_calls_simps)
    qed
  qed
next
  fix m
  assume ne: "d \<noteq> []" and a: "snd (ask_glm cfg net d) = Inr m"
  show "take 6 (fst (main str_of cfg net)) =
          [Print ''Fetching PR diff...'', Http (files_request cfg),
           Print ''Sending to GLM...'', Http (glm_request cfg d),
           Print ''Posting comment to GitHub...'', Http (comment_request str_of cfg m)]"
  proof (cases "snd (post_comment_to_pr str_of cfg net m)")
    case (Inl e)
    show ?thesis by (simp add: main_post_fault [OF assms ne a Inl])
  next
    case (Inr u)
    show ?thesis by (simp add: main_done [OF assms ne a Inr])
  qed
  show "comment_calls cfg (fst (main str_of cfg net)) = [comment_request str_of cfg m]"
  proof (cases "snd (post_comment_to_pr str_of cfg net m)")
    case (Inl e)
    show ?thesis by (simp add: main_post_fault [OF assms ne a Inl] comment_calls_simps)
  next
    case (Inr u)
    show ?thesis by (simp add: main_done [OF assms ne a Inr] comment_calls_simps)
  qed
qed

text \<open>
  The theorem at the example run with a diff and a well-formed review, and at the run
  whose only file has no patch.
\<close>

theorem main_calls_follow_diff_witness:
  "llm_calls (fst (main opaque_str example_config (example_net example_files example_review 201))) =
     [glm_request example_config
        ''File: a.py\<newline>@@ -1 +1 @@\<newline>-x\<newline>+y\<newline>\<newline>\<newline>''] \<and>
   comment_calls example_config
     (fst (main opaque_str example_config (example_net example_files example_review 201))) =
     [comment_request opaque_str example_config (JStr ''LGTM'')] \<and>
   fst (main opaque_str example_config
          (example_net (JList [JDict [(''filename'', JStr ''logo.png'')]]) example_review 201)) =
     [Print ''Fetching PR diff...'', Http (files_request example_config),
      Print ''No diff found or diff is too large.'']"
  using main_calls_follow_diff [OF example_diff, of example_review 201]
    main_calls_follow_diff [OF example_no_diff, of example_review 201]
  by (simp add: example_ask_glm)

text \<open>
  C1 as stated fails: in the run below \<^verbatim>\<open>get_pr_diff\<close> returns a non-empty string,
  the chat-completion response is an error object without \<^verbatim>\<open>choices\<close>, and the run
  ends in \<^verbatim>\<open>ask_glm\<close> with a KeyError before any comment is posted.
\<close>

theorem no_comment_when_review_faults:
  "snd (get_pr_diff opaque_str example_config
          (example_net example_files (JDict [(''error'', JStr ''quota'')]) 201)) =
     Inr ''File: a.py\<newline>@@ -1 +1 @@\<newline>-x\<newline>+y\<newline>\<newline>\<newline>'' \<and>
   snd (main opaque_str example_config
          (example_net example_files (JDict [(''error'', JStr ''quota'')]) 201)) = Inl KeyError \<and>
   comment_calls example_config
     (fst (main opaque_str example_config
             (example_net example_files (JDict [(''error'', JStr ''quota'')]) 201))) = []"
proof -
  let ?net = "example_net example_files (JDict [(''error'', JStr ''quota'')]) 201"
  let ?d = "''File: a.py\<newline>@@ -1 +1 @@\<newline>-x\<newline>+y\<newline>\<newline>\<newline>''"
  have d: "snd (get_pr_diff opaque_str example_config ?net) = Inr ?d"
    by (rule example_diff)
  have a: "snd (ask_glm example_config ?net ?d) = Inl KeyError"
    by (simp add: ask_glm_def example_net_simps)
  show ?thesis
    using d by (simp add: main_review_fault [OF d _ a] comment_calls_simps)
qed

section \<open>The diff bundle\<close>

text \<open>
  C2. Take any file list and any record in it whose patch is a non-empty str and whose
  filename is a str. Then \<^verbatim>\<open>get_pr_diff\<close> runs its loop over the records before it,
  appends exactly \<^verbatim>\<open>File: \<close>, the filename, a newline, the patch and two
  newlines, and runs on over the records after it: when the records before give the
  bundle \<open>before\<close> and those after give \<open>after\<close>, it returns \<open>before\<close>, that
  section and \<open>after\<close>, and for a list of the one record it returns the section alone.
  For the one file \<^verbatim>\<open>a.py\<close> with the patch \<^verbatim>\<open>@@ -1 +1 @@\n-x\n+y\n\<close> that is
  \<^verbatim>\<open>File: a.py\n@@ -1 +1 @@\n-x\n+y\n\n\n\<close>.
\<close>

theorem get_pr_diff_appends_section:
  assumes "net (files_request cfg) = Reply status (Some (JList (pre @ JDict kvs # post)))"
    and "map_of kvs ''patch'' = Some (JStr patch)" and "patch \<noteq> []"
    and "map_of kvs ''filename'' = Some (JStr filename)"
  shows "snd (get_pr_diff str_of cfg net) =
           and_then (diff_loop str_of [] pre)
             (\<lambda>before. diff_loop str_of
                (before @ ''File: '' @ filename @ ''\<newline>'' @ patch @ ''\<newline>\<newline>'') post) \<and>
         (\<forall>before after.
            diff_loop str_of [] pre = Inr before \<and> diff_loop str_of [] post = Inr after \<longrightarrow>
            snd (get_pr_diff str_of cfg net) =
              Inr (before @ ''File: '' @ filename @ ''\<newline>'' @ patch @ ''\<newline>\<newline>'' @ after)) \<and>
         (pre = [] \<and> post = [] \<longrightarrow>
            snd (get_pr_diff str_of cfg net) =
              Inr (''File: '' @ filename @ ''\<newline>'' @ patch @ ''\<newline>\<newline>'')) \<and>
         (pre = [] \<and> post = [] \<and> filename = ''a.py'' \<and>
          patch = ''@@ -1 +1 @@\<newline>-x\<newline>+y\<newline>'' \<longrightarrow>
            snd (get_pr_diff str_of cfg net) =
              Inr ''File: a.py\<newline>@@ -1 +1 @@\<newline>-x\<newline>+y\<newline>\<newline>\<newline>'')"
proof -
  let ?section = "''File: '' @ filename @ ''\<newline>'' @ patch @ ''\<newline>\<newline>''"
  have step: "diff_loop str_of acc (JDict kvs # post) = diff_loop str_of (acc @ ?section) post"
    for acc
    using assms(2-4) by (simp add: file_section_def)
  have g: "snd (get_pr_diff str_of cfg net) =
             and_then (diff_loop str_of [] pre) (\<lambda>before. diff_loop str_of (before @ ?section) post)"
    using assms(1) by (simp add: get_pr_diff_def diff_loop_append step del: diff_loop.simps)
  have both: "snd (get_pr_diff str_of cfg net) = Inr (before @ ?section @ after)"
    if "diff_loop str_of [] pre = Inr before" and "diff_loop str_of [] post = Inr after"
    for before after
    using that diff_loop_shift [of str_of post after "before @ ?section"] by (simp add: g)
  have single: "snd (get_pr_diff str_of cfg net) = Inr ?section" if "pre = []" and "post = []"
    using that by (simp add: g)
  show ?thesis
    using g both single by auto
qed

text \<open>
  The theorem at the list of the one file \<^verbatim>\<open>a.py\<close>, and at the second of four
  records, of which the third has no patch.
\<close>

theorem get_pr_diff_appends_section_witness:
  "snd (get_pr_diff opaque_str example_config
     (example_net (JList [JDict [(''filename'', JStr ''a.py''),
        (''patch'', JStr ''@@ -1 +1 @@\<newline>-x\<newline>+y\<newline>'')]]) example_review 201)) =
     Inr ''File: a.py\<newline>@@ -1 +1 @@\<newline>-x\<newline>+y\<newline>\<newline>\<newline>'' \<and>
   snd (get_pr_diff opaque_str example_config
     (example_net (JList [JDict [(''filename'', JStr ''b.py''), (''patch'', JStr ''+b'')],
                          JDict [(''filename'', JStr ''lib/c.py''), (''patch'', JStr ''-c'')],
                          JDict [(''filename'', JStr ''logo.png'')],
                          JDict [(''filename'', JStr ''d.py''), (''patch'', JStr ''+d'')]])
        example_review 201)) =
     Inr ''File: b.py\<newline>+b\<newline>\<newline>File: lib/c.py\<newline>-c\<newline>\<newline>File: d.py\<newline>+d\<newline>\<newline>''"
proof -
  let ?one = "example_net (JList [JDict [(''filename'', JStr ''a.py''),
        (''patch'', JStr ''@@ -1 +1 @@\<newline>-x\<newline>+y\<newline>'')]]) example_review 201"
  let ?pre = "[JDict [(''filename'', JStr ''b.py''), (''patch'', JStr ''+b'')]]"
  let ?post = "[JDict [(''filename'', JStr ''logo.png'')],
               JDict [(''filename'', JStr ''d.py''), (''patch'', JStr ''+d'')]]"
  let ?many = "example_net (JList (?pre @ JDict [(''filename'', JStr ''lib/c.py''),
                 (''patch'', JStr ''-c'')] # ?post)) example_review 201"
  have h1: "?one (files_request example_config) =
     Reply 200 (Some (JList ([] @ JDict [(''filename'', JStr ''a.py''),
        (''patch'', JStr ''@@ -1 +1 @@\<newline>-x\<newline>+y\<newline>'')] # [])))"
    by (simp add: example_net_simps)
  have a: "snd (get_pr_diff opaque_str example_config ?one) =
     Inr ''File: a.py\<newline>@@ -1 +1 @@\<newline>-x\<newline>+y\<newline>\<newline>\<newline>''"
    using get_pr_diff_appends_section [where net = "?one" and cfg = example_config and status = 200
        and pre = "[]" and post = "[]" and str_of = opaque_str
        and kvs = "[(''filename'', JStr ''a.py''),
                    (''patch'', JStr ''@@ -1 +1 @@\<newline>-x\<newline>+y\<newline>'')]"
        and patch = "''@@ -1 +1 @@\<newline>-x\<newline>+y\<newline>''" and filename = "''a.py''", OF h1]
    by simp
  have h2: "?many (files_request example_config) =
     Reply 200 (Some (JList (?pre @ JDict [(''filename'', JStr ''lib/c.py''),
                 (''patch'', JStr ''-c'')] # ?post)))"
    by (simp add: example_net_simps)
  have p: "diff_loop opaque_str [] ?pre = Inr ''File: b.py\<newline>+b\<newline>\<newline>''"
    by (simp add: file_section_def)
  have q: "diff_loop opaque_str [] ?post = Inr ''File: d.py\<newline>+d\<newline>\<newline>''"
    by (simp add: file_section_def)
  have b: "snd (get_pr_diff opaque_str example_config ?many) =
     Inr ''File: b.py\<newline>+b\<newline>\<newline>File: lib/c.py\<newline>-c\<newline>\<newline>File: d.py\<newline>+d\<newline>\<newline>''"
    using get_pr_diff_appends_section [where net = "?many" and cfg = example_config and status = 200
        and pre = "?pre" and post = "?post" and str_of = opaque_str
        and kvs = "[(''filename'', JStr ''lib/c.py''), (''patch'', JStr ''-c'')]"
        and patch = "''-c''" and filename = "''lib/c.py''", OF h2] p q
    by simp
  from a b show ?thesis by simp
qed

text \<open>
  C5. A file record without a \<^verbatim>\<open>patch\<close> key, or with a patch that is empty (or any
  other value that counts as false), is left out: on a file list with such a record
  \<^verbatim>\<open>get_pr_diff\<close> returns what its loop returns on the list without the record, so the
  record adds nothing and raises nothing, and the records before and after it are
  processed as they would be without it.
\<close>

theorem get_pr_diff_skips_missing_patch:
  assumes "net (files_request cfg) = Reply status (Some (JList (pre @ JDict kvs # post)))"
    and "map_of kvs ''patch'' = None \<or> (\<exists>p. map_of kvs ''patch'' = Some p \<and> \<not> truthy p)"
  shows "snd (get_pr_diff str_of cfg net) = diff_loop str_of [] (pre @ post)"
proof -
  have "diff_loop str_of acc (JDict kvs # post) = diff_loop str_of acc post" for acc
    using assms(2) by auto
  then have "diff_loop str_of [] (pre @ JDict kvs # post) = diff_loop str_of [] (pre @ post)"
    by (simp add: diff_loop_append)
  then show ?thesis
    using assms(1) by (simp add: get_pr_diff_def)
qed

theorem get_pr_diff_skips_missing_patch_witness:
  "snd (get_pr_diff opaque_str example_config (example_net example_files example_review 201)) =
     diff_loop opaque_str []
       [JDict [(''filename'', JStr ''a.py''),
               (''patch'', JStr ''@@ -1 +1 @@\<newline>-x\<newline>+y\<newline>'')]] \<and>
   snd (get_pr_diff opaque_str example_config (example_net example_files example_review 201)) =
     Inr ''File: a.py\<newline>@@ -1 +1 @@\<newline>-x\<newline>+y\<newline>\<newline>\<newline>''"
  using get_pr_diff_skips_missing_patch
    [where net = "example_net example_files example_review 201" and cfg = example_config
       and status = 200
       and pre = "[JDict [(''filename'', JStr ''a.py''),
                          (''patch'', JStr ''@@ -1 +1 @@\<newline>-x\<newline>+y\<newline>'')]]"
       and kvs = "[(''filename'', JStr ''logo.png'')]" and post = "[]" and str_of = opaque_str]
  by (simp add: example_net_simps example_files_def file_section_def)

text \<open>
  C9. A file record whose patch counts as true and which has no \<^verbatim>\<open>filename\<close> key makes
  \<^verbatim>\<open>get_pr_diff\<close> raise, and the run ends there, after the fetch; when the records
  before it are processed without a fault, the fault is the KeyError of
  \<^verbatim>\<open>file['filename']\<close>. A missing filename is not skipped the way a missing patch is.
\<close>

theorem get_pr_diff_faults_on_missing_filename:
  assumes "net (files_request cfg) = Reply status (Some (JList (pre @ JDict kvs # post)))"
    and "map_of kvs ''patch'' = Some p" and "truthy p"
    and "map_of kvs ''filename'' = None"
  shows "(\<exists>e. main str_of cfg net =
                ([Print ''Fetching PR diff...'', Http (files_request cfg)], Inl e) \<and>
              snd (get_pr_diff str_of cfg net) = Inl e) \<and>
         (\<forall>d. diff_loop str_of [] pre = Inr d \<longrightarrow>
            snd (get_pr_diff str_of cfg net) = Inl KeyError)"
proof -
  have step: "diff_loop str_of acc (JDict kvs # post) = Inl KeyError" for acc
    using assms(2-4) by simp
  have g: "snd (get_pr_diff str_of cfg net) =
             and_then (diff_loop str_of [] pre) (\<lambda>a. diff_loop str_of a (JDict kvs # post))"
    using assms(1) by (simp add: get_pr_diff_def diff_loop_append)
  have k: "\<forall>d. diff_loop str_of [] pre = Inr d \<longrightarrow>
            snd (get_pr_diff str_of cfg net) = Inl KeyError"
    by (simp add: g step del: diff_loop.simps)
  obtain e where e: "snd (get_pr_diff str_of cfg net) = Inl e"
    by (cases "diff_loop str_of [] pre") (simp_all add: g step del: diff_loop.simps)
  show ?thesis
    using k e main_fetch_fault [OF e] by blast
qed

theorem get_pr_diff_faults_on_missing_filename_witness:
  "main opaque_str example_config
     (example_net (JList [JDict [(''filename'', JStr ''logo.png'')],
                          JDict [(''patch'', JStr ''+y'')]]) example_review 201) =
     ([Print ''Fetching PR diff...'', Http (files_request example_config)], Inl KeyError)"
proof -
  let ?net = "example_net (JList [JDict [(''filename'', JStr ''logo.png'')],
                          JDict [(''patch'', JStr ''+y'')]]) example_review 201"
  have h: "?net (files_request example_config) =
     Reply 200 (Some (JList ([JDict [(''filename'', JStr ''logo.png'')]] @
       JDict [(''patch'', JStr ''+y'')] # [])))"
    by (simp add: example_net_simps)
  from get_pr_diff_faults_on_missing_filename
    [where net = "?net" and cfg = example_config and status = 200
       and pre = "[JDict [(''filename'', JStr ''logo.png'')]]"
       and kvs = "[(''patch'', JStr ''+y'')]"
       and post = "[]" and p = "JStr ''+y''" and str_of = opaque_str, OF h]
  show ?thesis by auto
qed

text \<open>
  C10. On a file list, \<^verbatim>\<open>get_pr_diff\<close> returns a bundle exactly when every record can
  be processed, and the bundle is then the concatenation, in the order of the list, of
  the sections of the qualifying records. The result is a function of the file list.
\<close>

theorem get_pr_diff_concat_in_order:
  assumes "net (files_request cfg) = Reply status (Some (JList files))"
  shows "snd (get_pr_diff str_of cfg net) = Inr d \<longleftrightarrow>
           list_all processable files \<and>
           d = concat (map (entry_section str_of) (filter qualifies files))"
  using assms diff_loop_char [of str_of "[]" files d]
  by (simp add: get_pr_diff_def)

theorem get_pr_diff_concat_in_order_witness:
  "snd (get_pr_diff opaque_str example_config
     (example_net (JList [JDict [(''filename'', JStr ''b.py''), (''patch'', JStr ''+b'')],
                          JDict [(''filename'', JStr ''logo.png'')],
                          JDict [(''filename'', JStr ''a.py''), (''patch'', JStr ''+a'')]])
        example_review 201)) =
     Inr ''File: b.py\<newline>+b\<newline>\<newline>File: a.py\<newline>+a\<newline>\<newline>''"
proof -
  let ?files = "[JDict [(''filename'', JStr ''b.py''), (''patch'', JStr ''+b'')],
                 JDict [(''filename'', JStr ''logo.png'')],
                 JDict [(''filename'', JStr ''a.py''), (''patch'', JStr ''+a'')]]"
  let ?net = "example_net (JList ?files) example_review 201"
  have h: "?net (files_request example_config) = Reply 200 (Some (JList ?files))"
    by (simp add: example_net_simps)
  have w: "list_all processable ?files"
    by (simp add: processable_def qualifies_def)
  have c: "concat (map (entry_section opaque_str) (filter qualifies ?files)) =
     ''File: b.py\<newline>+b\<newline>\<newline>File: a.py\<newline>+a\<newline>\<newline>''"
    by (simp add: qualifies_def entry_section_def file_section_def)
  from get_pr_diff_concat_in_order
    [where net = "?net" and cfg = example_config and status = 200
       and files = "?files" and str_of = opaque_str
       and d = "''File: b.py\<newline>+b\<newline>\<newline>File: a.py\<newline>+a\<newline>\<newline>''", OF h] w c
  show ?thesis by simp
qed

section \<open>The review request\<close>

text \<open>
  C4. When the chat-completion response has a JSON body without the path
  \<^verbatim>\<open>choices[0].message.content\<close>, \<^verbatim>\<open>ask_glm\<close> raises; when the body is an object
  without a \<^verbatim>\<open>choices\<close> key the fault is a KeyError. In a run that reached
  \<^verbatim>\<open>ask_glm\<close> the fault ends the run: the last thing the run did is the
  chat-completion request, and no request went to the comment endpoint.
\<close>

theorem ask_glm_faults_without_content_path:
  assumes "net (glm_request cfg diff_text) = Reply status (Some body)"
    and "\<not> has_content_path body"
  shows "(\<exists>e. snd (ask_glm cfg net diff_text) = Inl e) \<and>
         (\<forall>kvs. body = JDict kvs \<and> map_of kvs ''choices'' = None \<longrightarrow>
            snd (ask_glm cfg net diff_text) = Inl KeyError) \<and>
         (snd (get_pr_diff str_of cfg net) = Inr diff_text \<and> diff_text \<noteq> [] \<longrightarrow>
            (\<exists>e. snd (main str_of cfg net) = Inl e) \<and>
            fst (main str_of cfg net) =
              [Print ''Fetching PR diff...'', Http (files_request cfg),
               Print ''Sending to GLM...'', Http (glm_request cfg diff_text)] \<and>
            comment_calls cfg (fst (main str_of cfg net)) = [])"
proof -
  have r: "snd (ask_glm cfg net diff_text) =
     and_then (and_then (and_then (getitem_str body ''choices'') getitem_0)
       (\<lambda>choice. getitem_str choice ''message''))
       (\<lambda>message. getitem_str message ''content'')"
    using assms(1) by (simp add: ask_glm_def)
  have "\<not> (\<exists>c. snd (ask_glm cfg net diff_text) = Inr c)"
    using assms(2) content_path_iff [of body] by (simp add: r)
  then obtain e where e: "snd (ask_glm cfg net diff_text) = Inl e"
    by (cases "snd (ask_glm cfg net diff_text)") auto
  have k: "\<forall>kvs. body = JDict kvs \<and> map_of kvs ''choices'' = None \<longrightarrow>
            snd (ask_glm cfg net diff_text) = Inl KeyError"
    by (simp add: r)
  have m: "snd (get_pr_diff str_of cfg net) = Inr diff_text \<and> diff_text \<noteq> [] \<longrightarrow>
            (\<exists>e. snd (main str_of cfg net) = Inl e) \<and>
            fst (main str_of cfg net) =
              [Print ''Fetching PR diff...'', Http (files_request cfg),
               Print ''Sending to GLM...'', Http (glm_request cfg diff_text)] \<and>
            comment_calls cfg (fst (main str_of cfg net)) = []"
    by (auto simp: main_review_fault [OF _ _ e] comment_calls_simps)
  show ?thesis using e k m by blast
qed

theorem ask_glm_faults_without_content_path_witness:
  "\<not> has_content_path (JDict [(''error'', JStr ''quota'')]) \<and>
   snd (ask_glm example_config
     (example_net example_files (JDict [(''error'', JStr ''quota'')]) 201)
     ''File: a.py\<newline>@@ -1 +1 @@\<newline>-x\<newline>+y\<newline>\<newline>\<newline>'') = Inl KeyError \<and>
   fst (main opaque_str example_config
     (example_net example_files (JDict [(''error'', JStr ''quota'')]) 201)) =
     [Print ''Fetching PR diff...'', Http (files_request example_config),
      Print ''Sending to GLM...'',
      Http (glm_request example_config
        ''File: a.py\<newline>@@ -1 +1 @@\<newline>-x\<newline>+y\<newline>\<newline>\<newline>'')]"
proof -
  let ?body = "JDict [(''error'', JStr ''quota'')]"
  let ?net = "example_net example_files ?body 201"
  let ?d = "''File: a.py\<newline>@@ -1 +1 @@\<newline>-x\<newline>+y\<newline>\<newline>\<newline>''"
  have h1: "?net (glm_request example_config ?d) = Reply 200 (Some ?body)"
    by (simp add: example_net_simps)
  have h2: "\<not> has_content_path ?body"
    by (simp add: has_content_path_def)
  have d: "snd (get_pr_diff opaque_str example_config ?net) = Inr ?d"
    by (rule example_diff)
  from ask_glm_faults_without_content_path
    [where net = "?net" and cfg = example_config and diff_text = "?d"
       and status = 200 and body = "?body" and str_of = opaque_str, OF h1 h2] d
  have "snd (ask_glm example_config ?net ?d) = Inl KeyError"
    and "fst (main opaque_str example_config ?net) =
           [Print ''Fetching PR diff...'', Http (files_request example_config),
            Print ''Sending to GLM...'', Http (glm_request example_config ?d)]"
    by simp_all
  with h2 show ?thesis by simp
qed

section \<open>The comment\<close>

text \<open>
  C3. For every review text \<open>m\<close>, \<^verbatim>\<open>post_comment_to_pr\<close> makes one request, and the
  \<^verbatim>\<open>body\<close> it submits is the title \<^verbatim>\<open>## \<close>, the robot face U+1F916,
  \<^verbatim>\<open> GLM Code Review Bot\<close> and two newlines, followed by \<open>m\<close> itself: nothing of
  \<open>m\<close> is cut off or rewritten.
\<close>

theorem comment_body_is_title_then_review:
  "submitted_bodies (fst (post_comment_to_pr str_of cfg net (JStr m))) =
     [JStr (''## '' @ [CHR 0xF0, CHR 0x9F, CHR 0xA4, CHR 0x96] @
            '' GLM Code Review Bot\<newline>\<newline>'' @ m)]"
  by (simp add: post_comment_to_pr_def comment_request_def comment_title_def)

theorem comment_body_is_title_then_review_witness:
  "submitted_bodies (fst (post_comment_to_pr opaque_str example_config
     (example_net example_files example_review 201) (JStr ''LGTM <b>&amp; 100%\<newline>ok''))) =
     [JStr (CHR ''#'' # CHR ''#'' # CHR '' '' # CHR 0xF0 # CHR 0x9F # CHR 0xA4 # CHR 0x96 #
            '' GLM Code Review Bot\<newline>\<newline>LGTM <b>&amp; 100%\<newline>ok'')]"
  using comment_body_is_title_then_review
    [of opaque_str example_config "example_net example_files example_review 201"
       "''LGTM <b>&amp; 100%\<newline>ok''"]
  by simp

text \<open>
  C6, as amended. For a review text \<open>message\<close>, \<^verbatim>\<open>post_comment_to_pr\<close> makes exactly
  one request: a POST to the issue-comments address of the pull request, with the token
  and the accept header, whose JSON body is the object with the one key \<^verbatim>\<open>body\<close>,
  holding the title \<^verbatim>\<open>## \<close>, U+1F916, \<^verbatim>\<open> GLM Code Review Bot\<close>, a blank line and
  the message.
\<close>

theorem post_comment_request_shape:
  "fst (post_comment_to_pr str_of cfg net (JStr message)) =
     [Http \<lparr>meth = POST,
            url = ''https://api.github.com/repos/'' @ env_str (REPO cfg) @ ''/issues/'' @
                  env_str (PR_NUMBER cfg) @ ''/comments'',
            headers = [(''Authorization'', ''token '' @ env_str (GH_PAT cfg)),
                       (''Accept'', ''application/vnd.github.v3+json'')],
            json_payload = Some (JDict [(''body'',
              JStr (''## '' @ [CHR 0xF0, CHR 0x9F, CHR 0xA4, CHR 0x96] @
                    '' GLM Code Review Bot\<newline>\<newline>'' @ message))])\<rparr>]"
  by (simp add: post_comment_to_pr_def comment_request_def comment_title_def)

theorem post_comment_request_shape_witness:
  "fst (post_comment_to_pr opaque_str example_config
          (example_net example_files example_review 201) (JStr ''LGTM'')) =
     [Http \<lparr>meth = POST,
            url = ''https://api.github.com/repos/org/repo/issues/42/comments'',
            headers = [(''Authorization'', ''token gh-token''),
                       (''Accept'', ''application/vnd.github.v3+json'')],
            json_payload = Some (JDict [(''body'',
              JStr (CHR ''#'' # CHR ''#'' # CHR '' '' # CHR 0xF0 # CHR 0x9F # CHR 0xA4 #
                    CHR 0x96 # '' GLM Code Review Bot\<newline>\<newline>LGTM''))])\<rparr>]"
  using post_comment_request_shape
    [of opaque_str example_config "example_net example_files example_review 201" "''LGTM''"]
  by (simp add: example_config_def)

text \<open>
  C6 as stated fails: the body submitted for the review \<^verbatim>\<open>LGTM\<close> is not
  \<^verbatim>\<open>## Review Bot\<close>, a blank line and \<^verbatim>\<open>LGTM\<close>.
\<close>

theorem comment_body_is_not_review_bot:
  "submitted_bodies (fst (post_comment_to_pr opaque_str example_config
     (example_net example_files example_review 201) (JStr ''LGTM''))) \<noteq>
     [JStr ''## Review Bot\<newline>\<newline>LGTM'']"
  by (simp add: post_comment_to_pr_def comment_request_def comment_title_def)

text \<open>
  C7. Whatever response the comment request gets, with any status and any body,
  \<^verbatim>\<open>post_comment_to_pr\<close> returns normally and the same: the response is not looked at.
  The run that called it then prints \<^verbatim>\<open>Done!\<close> and ends without a fault.
\<close>

theorem post_comment_ignores_response:
  assumes "net (comment_request str_of cfg message) = Reply status body"
  shows "post_comment_to_pr str_of cfg net message =
           ([Http (comment_request str_of cfg message)], Inr ()) \<and>
         (snd (get_pr_diff str_of cfg net) = Inr d \<and> d \<noteq> [] \<and>
          snd (ask_glm cfg net d) = Inr message \<longrightarrow>
            snd (main str_of cfg net) = Inr () \<and>
            last (fst (main str_of cfg net)) = Print ''Done!'')"
proof -
  have p: "post_comment_to_pr str_of cfg net message =
           ([Http (comment_request str_of cfg message)], Inr ())"
    using assms by (simp add: post_comment_to_pr_def)
  then have s: "snd (post_comment_to_pr str_of cfg net message) = Inr ()"
    by simp
  show ?thesis
    using p by (auto simp: main_done [OF _ _ _ s])
qed

text \<open>The theorem at a run whose comment request is answered with the status 403.\<close>

theorem post_comment_ignores_response_witness:
  "post_comment_to_pr opaque_str example_config (example_net example_files example_review 403)
     (JStr ''LGTM'') =
     ([Http (comment_request opaque_str example_config (JStr ''LGTM''))], Inr ()) \<and>
   snd (main opaque_str example_config (example_net example_files example_review 403)) = Inr () \<and>
   last (fst (main opaque_str example_config (example_net example_files example_review 403))) =
     Print ''Done!''"
  using post_comment_ignores_response
    [where net = "example_net example_files example_review 403" and str_of = opaque_str
       and cfg = example_config and message = "JStr ''LGTM''" and status = 403 and body = None
       and d = "''File: a.py\<newline>@@ -1 +1 @@\<newline>-x\<newline>+y\<newline>\<newline>\<newline>''"]
  by (simp add: example_net_simps example_diff example_ask_glm)

section \<open>The console\<close>

text \<open>
  C8, as amended. A run without a fault prints exactly four lines when the diff is not
  empty (\<^verbatim>\<open>Fetching PR diff...\<close>, \<^verbatim>\<open>Sending to GLM...\<close>,
  \<^verbatim>\<open>Posting comment to GitHub...\<close>, \<^verbatim>\<open>Done!\<close>) and exactly two lines when it is empty
  (\<^verbatim>\<open>Fetching PR diff...\<close>, \<^verbatim>\<open>No diff found or diff is too large.\<close>).
\<close>

theorem console_of_fault_free_run:
  assumes "snd (main str_of cfg net) = Inr ()"
  shows "\<exists>d. snd (get_pr_diff str_of cfg net) = Inr d \<and>
           console (fst (main str_of cfg net)) =
             (if d = [] then [''Fetching PR diff...'', ''No diff found or diff is too large.'']
              else [''Fetching PR diff...'', ''Sending to GLM...'',
                    ''Posting comment to GitHub...'', ''Done!''])"
proof (cases "snd (get_pr_diff str_of cfg net)")
  case (Inl e)
  then show ?thesis using assms by (simp add: main_fetch_fault)
next
  case d: (Inr d)
  show ?thesis
  proof (cases "d = []")
    case True
    then show ?thesis using d by (simp add: main_no_diff)
  next
    case ne: False
    show ?thesis
    proof (cases "snd (ask_glm cfg net d)")
      case (Inl e)
      then show ?thesis using assms by (simp add: main_review_fault [OF d ne])
    next
      case m: (Inr m)
      show ?thesis
      proof (cases "snd (post_comment_to_pr str_of cfg net m)")
        case (Inl e)
        then show ?thesis using assms by (simp add: main_post_fault [OF d ne m])
      next
        case (Inr u)
        then show ?thesis using d ne by (simp add: main_done [OF d ne m])
      qed
    qed
  qed
qed

theorem console_of_fault_free_run_witness:
  "console (fst (main opaque_str example_config
     (example_net (JList [JDict [(''filename'', JStr ''logo.png'')]]) example_review 201))) =
     [''Fetching PR diff...'', ''No diff found or diff is too large.''] \<and>
   console (fst (main opaque_str example_config
     (example_net example_files example_review 201))) =
     [''Fetching PR diff...'', ''Sending to GLM...'', ''Posting comment to GitHub...'', ''Done!'']"
proof -
  let ?none = "example_net (JList [JDict [(''filename'', JStr ''logo.png'')]]) example_review 201"
  let ?some = "example_net example_files example_review 201"
  have "snd (main opaque_str example_config ?none) = Inr ()"
    by (simp add: main_no_diff [OF example_no_diff])
  from console_of_fault_free_run [OF this]
  have a: "console (fst (main opaque_str example_config ?none)) =
     [''Fetching PR diff...'', ''No diff found or diff is too large.'']"
    by (simp add: example_no_diff)
  have "snd (main opaque_str example_config ?some) = Inr ()"
    by (simp add: main_done [OF example_diff _ example_ask_glm example_post])
  from console_of_fault_free_run [OF this]
  have b: "console (fst (main opaque_str example_config ?some)) =
     [''Fetching PR diff...'', ''Sending to GLM...'', ''Posting comment to GitHub...'', ''Done!'']"
    by (simp add: example_diff)
  from a b show ?thesis by simp
qed

text \<open>
  C8 as stated fails: the run below has no fault and a non-empty diff, and it prints
  four lines, not three.
\<close>

theorem console_has_four_lines:
  "snd (main opaque_str example_config (example_net example_files example_review 201)) = Inr () \<and>
   snd (get_pr_diff opaque_str example_config (example_net example_files example_review 201)) =
     Inr ''File: a.py\<newline>@@ -1 +1 @@\<newline>-x\<newline>+y\<newline>\<newline>\<newline>'' \<and>
   console (fst (main opaque_str example_config (example_net example_files example_review 201))) =
     [''Fetching PR diff...'', ''Sending to GLM...'', ''Posting comment to GitHub...'', ''Done!''] \<and>
   length (console (fst (main opaque_str example_config
     (example_net example_files example_review 201)))) = 4"
  by (simp add: main_done [OF example_diff _ example_ask_glm example_post] example_diff)
end
